theory Spec2Isabelle
  imports Complex_Main
begin

section \<open>Peak waveform features: a model of \<open>features_from_peaks.py\<close>\<close>

text \<open>
  The development follows \<open>src/spikeinterface/sortingcomponents/features_from_peaks.py\<close>.
  The conversion of a window from milliseconds to samples is computed as Python does, in
  binary64 arithmetic with its rounding. In the feature engine Python floats are idealised
  as \<^typ>\<open>real\<close> (no rounding, no NaN, and the tensor's \<open>float32\<close> entries hold the
  values as computed). Python integers are \<^typ>\<open>int\<close>; an exception is a value \<open>Inl e\<close>
  of a sum type.
\<close>

subsection \<open>Exceptions\<close>

text \<open>
  The two assertions of \<open>compute_features_from_peaks\<close> get a constructor each:
  \<open>UnknownFeatureError\<close> is \<open>assert feature in my_params.keys(), "feature is not known..."\<close>
  and \<open>MissingDependencyError\<close> is
  \<open>assert has_com, "some features requires CoM to be computed first"\<close>.
  The others are the Python and numpy exceptions of the same name
  (\<open>NameError\<close> stands for \<open>UnboundLocalError\<close>, its subclass).
\<close>

datatype error =
    UnknownFeatureError
  | MissingDependencyError
  | KeyError
  | IndexError
  | TypeError
  | ValueError
  | NameError
  | OverflowError

subsection \<open>The module-level parameter tables\<close>

text \<open>
  A per-feature parameter dictionary, restricted to the keys the module reads or writes.
  \<open>ms_before\<close> and \<open>ms_after\<close> are present in every dictionary of the tables and hold
  Python's \<open>None\<close> (here \<open>None\<close>) or a number. For the other fields \<open>None\<close> says that the
  dictionary has no such key.
\<close>

record fparams =
  peak_sign :: "string option"
  ms_before :: "real option"
  ms_after :: "real option"
  local_radius_um :: "real option"
  nbefore :: "int option"
  nafter :: "int option"
  sparsity_mask :: "bool list list option"

text \<open>
  A dictionary of overrides, \<open>feature_params[key]\<close>: for each key, \<open>None\<close> when the caller
  did not give it. An override of \<open>ms_before\<close> may itself be Python's \<open>None\<close>.
\<close>

record feature_override =
  set_peak_sign :: "string option"
  set_ms_before :: "real option option"
  set_ms_after :: "real option option"
  set_local_radius_um :: "real option"

definition dict_update :: "fparams \<Rightarrow> feature_override \<Rightarrow> fparams" where
  \<comment> \<open>\<open>d.update(o)\<close>: the keys of \<open>o\<close> replace those of \<open>d\<close>, the others stay.\<close>
  "dict_update d ov =
     d\<lparr>peak_sign := (case set_peak_sign ov of None \<Rightarrow> peak_sign d | Some v \<Rightarrow> Some v),
       ms_before := (case set_ms_before ov of None \<Rightarrow> ms_before d | Some v \<Rightarrow> v),
       ms_after := (case set_ms_after ov of None \<Rightarrow> ms_after d | Some v \<Rightarrow> v),
       local_radius_um :=
         (case set_local_radius_um ov of None \<Rightarrow> local_radius_um d | Some v \<Rightarrow> Some v)\<rparr>"

text \<open>
  The two tables are dictionaries from a feature name to a dictionary object. The inner
  dictionaries are objects of the heap, so a table is an association list from names to
  addresses and the store holds the dictionary at each address. \<open>dict.copy()\<close> copies the
  association list only: the copy and the table share the inner dictionaries.
\<close>

type_synonym addr = nat

record module_state =
  one_feature_per_peak_params :: "(string \<times> addr) list"
  n_chans_features_per_peak_params :: "(string \<times> addr) list"
  heap :: "fparams list"

definition no_window :: fparams where
  "no_window = \<lparr>peak_sign = None, ms_before = None, ms_after = None,
     local_radius_um = None, nbefore = None, nafter = None, sparsity_mask = None\<rparr>"

definition initial_state :: module_state where
  \<comment> \<open>lines 8-16, as the module is loaded\<close>
  "initial_state =
     \<lparr>one_feature_per_peak_params =
        [(''amplitude'', 0), (''ptp'', 1), (''com'', 2),
         (''dist_com_vs_max_ptp_channel'', 3), (''energy'', 4)],
      n_chans_features_per_peak_params = [(''amplitude'', 5), (''ptp'', 6)],
      heap =
        [no_window\<lparr>peak_sign := Some ''neg''\<rparr>,
         no_window,
         no_window\<lparr>local_radius_um := Some 50\<rparr>,
         no_window\<lparr>local_radius_um := Some 50\<rparr>,
         no_window\<lparr>local_radius_um := Some 50\<rparr>,
         no_window\<lparr>peak_sign := Some ''neg''\<rparr>,
         no_window]\<rparr>"

subsection \<open>The recording and the peaks\<close>

text \<open>
  The recording is an external collaborator; the record holds what each of its getters
  returns. \<open>get_channel_locations\<close> is a two-dimensional array, one row per channel and one
  column per coordinate axis. \<open>get_channel_distances\<close> (of \<open>spikeinterface.core\<close>) is taken
  as given: a matrix, channel by channel. \<open>recording_segments\<close> holds the samples of each
  segment, one row of channel values per frame.
\<close>

record recording =
  get_sampling_frequency :: real
  get_num_channels :: nat
  get_channel_locations :: "real list list"
  get_channel_distances :: "real list list"
  recording_segments :: "real list list list"

record peak =
  segment_ind :: int
  sample_ind :: int
  channel_ind :: int
  amplitude :: real

subsection \<open>Parameter resolution (lines 67-129)\<close>

text \<open>
  Lines 93 and 100 compute \<open>int(ms * recording.get_sampling_frequency() / 1000.0)\<close> on
  Python floats, which are binary64 numbers: the product and the quotient are each rounded
  to the nearest binary64 number, ties to the even significand, and \<open>int\<close> truncates the
  result toward zero. A float is modelled by its value; a real number that is not a
  binary64 number stands for the float nearest to it, as a literal does, and one beyond
  the largest binary64 number for an infinity. On an infinite result \<open>int\<close> raises
  \<open>OverflowError\<close>; the product of an infinity and zero is nan, on which \<open>int\<close> raises
  \<open>ValueError\<close>.
\<close>

fun exponent_from :: "nat \<Rightarrow> real \<Rightarrow> int" where
  \<comment> \<open>the binary exponent of a positive number: \<open>2 ^ e \<le> x < 2 ^ (e + 1)\<close>, found by halving
      or doubling at most as often as the first argument says\<close>
  "exponent_from 0 x = 0"
| "exponent_from (Suc k) x =
     (if 2 \<le> x then exponent_from k (x / 2) + 1
      else if x < 1 then exponent_from k (x * 2) - 1
      else 0)"

definition pow2 :: "int \<Rightarrow> real" where
  "pow2 e = (if 0 \<le> e then 2 ^ nat e else 1 / 2 ^ nat (- e))"

definition round_half_even :: "real \<Rightarrow> int" where
  "round_half_even x =
     (let f = \<lfloor>x\<rfloor>; d = x - of_int f
      in if d < 1 / 2 then f else if 1 / 2 < d then f + 1 else if even f then f else f + 1)"

definition to_double :: "real \<Rightarrow> real option" where
  \<comment> \<open>the binary64 number nearest to \<open>x\<close>: 53 bits of significand, the exponent of the
      subnormal numbers from -1022 down; \<open>None\<close>: beyond the largest one (infinity). The
      exponents of binary64 lie within the 1100 steps of the search.\<close>
  "to_double x =
     (if x = 0 then Some 0
      else let e = max (- 1022) (exponent_from 1100 \<bar>x\<bar>);
               ulp = pow2 (e - 52);
               y = of_int (round_half_even (x / ulp)) * ulp
           in if pow2 1024 \<le> \<bar>y\<bar> then None else Some y)"

definition py_int :: "real \<Rightarrow> int" where
  \<comment> \<open>Python's \<open>int(x)\<close> on a finite float: truncation toward zero.\<close>
  "py_int x = (if 0 \<le> x then \<lfloor>x\<rfloor> else \<lceil>x\<rceil>)"

definition ms_to_samples :: "real \<Rightarrow> real \<Rightarrow> error + int" where
  \<comment> \<open>\<open>int(ms * recording.get_sampling_frequency() / 1000.0)\<close>, lines 93 and 100\<close>
  "ms_to_samples ms fs =
     (case (to_double ms, to_double fs) of
        (Some m, Some f) \<Rightarrow>
          (case to_double (m * f) of
             None \<Rightarrow> Inl OverflowError
           | Some p \<Rightarrow>
               (case to_double (p / 1000) of
                  None \<Rightarrow> Inl OverflowError
                | Some q \<Rightarrow> Inr (py_int q)))
      | (Some m, None) \<Rightarrow> if m = 0 then Inl ValueError else Inl OverflowError
      | (None, Some f) \<Rightarrow> if f = 0 then Inl ValueError else Inl OverflowError
      | (None, None) \<Rightarrow> Inl OverflowError)"

definition select_table :: "module_state \<Rightarrow> (string \<times> addr) list" where
  \<comment> \<open>lines 67-70: the condition is the truth value of the table \<open>one_feature_per_peak_params\<close>
      (a dictionary is true when it is not empty), and the result a shallow copy.\<close>
  "select_table s =
     (if one_feature_per_peak_params s \<noteq> [] then one_feature_per_peak_params s
      else n_chans_features_per_peak_params s)"

fun update_params ::
  "(string \<times> addr) list \<Rightarrow> (string \<times> feature_override) list \<Rightarrow> fparams list
     \<Rightarrow> error option \<times> fparams list" where
  \<comment> \<open>lines 72-73: \<open>my_params[key].update(feature_params[key])\<close> writes into the dictionary
      object that the table and its copy share.\<close>
  "update_params tbl [] h = (None, h)"
| "update_params tbl ((key, ov) # rest) h =
     (case map_of tbl key of
        None \<Rightarrow> (Some KeyError, h)
      | Some a \<Rightarrow> update_params tbl rest (h[a := dict_update (h ! a) ov]))"

fun check_features :: "string list \<Rightarrow> bool \<Rightarrow> string list \<Rightarrow> error option" where
  \<comment> \<open>lines 75-81, with the local \<open>has_com\<close> as an argument\<close>
  "check_features keys has_com [] = None"
| "check_features keys has_com (feature # rest) =
     (if feature \<notin> set keys then Some UnknownFeatureError
      else let has_com' = (has_com \<or> feature = ''com'') in
        if feature = ''dist_com_vs_max_ptp_channel'' \<and> \<not> has_com' then Some MissingDependencyError
        else check_features keys has_com' rest)"

text \<open>
  The sparsity mask, lines 110-119. The array is allocated with \<open>peaks.size\<close> rows and
  \<open>num_chans\<close> columns; row \<open>main_chan\<close> is written for every channel. numpy raises
  \<open>IndexError\<close> for a row or a column out of range, also when no column is selected.
\<close>

definition closest_chans :: "real list \<Rightarrow> real \<Rightarrow> nat list" where
  \<comment> \<open>\<open>np.nonzero(row <= radius)\<close>\<close>
  "closest_chans row radius = filter (\<lambda>j. row ! j \<le> radius) [0..<length row]"

definition set_true :: "bool list \<Rightarrow> nat list \<Rightarrow> bool list" where
  "set_true row js = fold (\<lambda>j r. r[j := True]) js row"

fun fill_mask ::
  "real list list \<Rightarrow> real \<Rightarrow> nat \<Rightarrow> nat list \<Rightarrow> bool list list \<Rightarrow> error + bool list list" where
  \<comment> \<open>the loop of lines 116-118 over \<open>unit_inds\<close>\<close>
  "fill_mask dists radius num_chans [] smask = Inr smask"
| "fill_mask dists radius num_chans (main_chan # rest) smask =
     (if length dists \<le> main_chan then Inl IndexError
      else let closest = closest_chans (dists ! main_chan) radius in
        if length smask \<le> main_chan \<or> list_ex (\<lambda>j. num_chans \<le> j) closest
          then Inl IndexError
        else fill_mask dists radius num_chans rest
               (smask[main_chan := set_true (smask ! main_chan) closest]))"

definition build_sparsity_mask :: "recording \<Rightarrow> nat \<Rightarrow> real \<Rightarrow> error + bool list list" where
  \<comment> \<open>lines 110-118; the second argument is \<open>peaks.size\<close>\<close>
  "build_sparsity_mask rec peaks_size radius =
     (let num_chans = get_num_channels rec in
        fill_mask (get_channel_distances rec) radius num_chans [0..<num_chans]
          (replicate peaks_size (replicate num_chans False)))"

definition shape2 :: "'a list list \<Rightarrow> nat list" where
  \<comment> \<open>the \<open>shape\<close> of a two-dimensional array: rows, columns\<close>
  "shape2 m = [length m, (case m of [] \<Rightarrow> 0 | r # _ \<Rightarrow> length r)]"

text \<open>
  The locals and the top-level entries of \<open>my_params\<close> that the loop of lines 88-123
  changes: the arguments \<open>ms_before\<close> and \<open>ms_after\<close> (assigned at lines 90 and 97),
  \<open>nbefore_max\<close>, \<open>nafter_max\<close>, and the entries \<open>global_times\<close>, \<open>chan_locs\<close> and
  \<open>nb_com_dims\<close> (\<open>None\<close>: no such key yet).
\<close>

record resolve_locals =
  cur_ms_before :: real
  cur_ms_after :: real
  nbefore_max :: int
  nafter_max :: int
  cur_global_times :: bool
  cur_chan_locs :: "real list list option"
  cur_nb_com_dims :: "nat option"

definition resolve_feature ::
  "recording \<Rightarrow> nat \<Rightarrow> (string \<times> addr) list \<Rightarrow> string \<Rightarrow> resolve_locals \<Rightarrow> fparams list
     \<Rightarrow> (error + resolve_locals) \<times> fparams list" where
  \<comment> \<open>one turn of the loop of lines 88-123\<close>
  "resolve_feature rec peaks_size tbl feature L h =
     (case map_of tbl feature of
        None \<Rightarrow> (Inl KeyError, h)
      | Some a \<Rightarrow>
          let fs = get_sampling_frequency rec;
              (msb, gt1) = (case ms_before (h ! a) of
                              Some v \<Rightarrow> (v, False)
                            | None \<Rightarrow> (cur_ms_before L, cur_global_times L))
          in case ms_to_samples msb fs of
               Inl e \<Rightarrow> (Inl e, h)
             | Inr nb \<Rightarrow>
                 let h1 = h[a := (h ! a)\<lparr>nbefore := Some nb\<rparr>];
                     (msa, gt2) = (case ms_after (h1 ! a) of
                                     Some v \<Rightarrow> (v, False)
                                   | None \<Rightarrow> (cur_ms_after L, gt1))
                 in case ms_to_samples msa fs of
                      Inl e \<Rightarrow> (Inl e, h1)
                    | Inr na \<Rightarrow>
                        let h2 = h1[a := (h1 ! a)\<lparr>nafter := Some na\<rparr>];
                            L2 = L\<lparr>cur_ms_before := msb, cur_ms_after := msa,
                                   nbefore_max := (if nbefore_max L < nb then nb
                                                   else nbefore_max L),
                                   nafter_max := (if nafter_max L < na then na
                                                  else nafter_max L),
                                   cur_global_times := gt2\<rparr>;
                            nb_dims = (if feature = ''com''
                                       then Some (length (shape2 (get_channel_locations rec)))
                                       else cur_nb_com_dims L2)
                        in case local_radius_um (h2 ! a) of
                             None \<Rightarrow> (Inr (L2\<lparr>cur_nb_com_dims := nb_dims\<rparr>), h2)
                           | Some radius \<Rightarrow>
                               (case build_sparsity_mask rec peaks_size radius of
                                  Inl e \<Rightarrow> (Inl e, h2)
                                | Inr smask \<Rightarrow>
                                    (Inr (L2\<lparr>cur_chan_locs :=
                                               Some (get_channel_locations rec),
                                             cur_nb_com_dims := nb_dims\<rparr>),
                                     h2[a := (h2 ! a)\<lparr>sparsity_mask := Some smask\<rparr>])))"

fun resolve_loop ::
  "recording \<Rightarrow> nat \<Rightarrow> (string \<times> addr) list \<Rightarrow> string list \<Rightarrow> resolve_locals \<Rightarrow> fparams list
     \<Rightarrow> (error + resolve_locals) \<times> fparams list" where
  "resolve_loop rec peaks_size tbl [] L h = (Inr L, h)"
| "resolve_loop rec peaks_size tbl (feature # rest) L h =
     (case resolve_feature rec peaks_size tbl feature L h of
        (Inl e, h') \<Rightarrow> (Inl e, h')
      | (Inr L', h') \<Rightarrow> resolve_loop rec peaks_size tbl rest L' h')"

text \<open>
  The resolved configuration: the dictionary \<open>my_params\<close> after line 129. Its entries for
  the feature names are the references of \<open>table\<close>, read through the store.
\<close>

record my_params =
  table :: "(string \<times> addr) list"
  global_times :: bool
  chan_locs :: "real list list option"
  nb_com_dims :: "nat option"
  top_nbefore :: int
  top_nafter :: int
  smoothing :: "string option"
  one_feature_per_peak :: bool

definition resolve_params ::
  "module_state \<Rightarrow> recording \<Rightarrow> nat \<Rightarrow> string list \<Rightarrow> (string \<times> feature_override) list
     \<Rightarrow> real \<Rightarrow> real \<Rightarrow> bool \<Rightarrow> string option \<Rightarrow> (error + my_params) \<times> module_state" where
  \<comment> \<open>lines 67-129 of \<open>compute_features_from_peaks\<close>; the third argument is \<open>peaks.size\<close>.
      The module's state is returned as the run leaves it, also when the run raises.\<close>
  "resolve_params s rec peaks_size feature_list feature_params ms_before_arg ms_after_arg
       one_feature_per_peak_arg smoothing_arg =
     (let tbl = select_table s in
      case update_params tbl feature_params (heap s) of
        (Some e, h) \<Rightarrow> (Inl e, s\<lparr>heap := h\<rparr>)
      | (None, h) \<Rightarrow>
          (case check_features (map fst tbl) False feature_list of
             Some e \<Rightarrow> (Inl e, s\<lparr>heap := h\<rparr>)
           | None \<Rightarrow>
               (case resolve_loop rec peaks_size tbl feature_list
                       \<lparr>cur_ms_before = ms_before_arg, cur_ms_after = ms_after_arg,
                        nbefore_max = 0, nafter_max = 0, cur_global_times = True,
                        cur_chan_locs = None, cur_nb_com_dims = None\<rparr> h of
                  (Inl e, h') \<Rightarrow> (Inl e, s\<lparr>heap := h'\<rparr>)
                | (Inr L, h') \<Rightarrow>
                    (Inr \<lparr>table = tbl, global_times = cur_global_times L,
                          chan_locs = cur_chan_locs L, nb_com_dims = cur_nb_com_dims L,
                          top_nbefore = nbefore_max L, top_nafter = nafter_max L,
                          smoothing = smoothing_arg,
                          one_feature_per_peak = one_feature_per_peak_arg\<rparr>,
                     s\<lparr>heap := h'\<rparr>))))"

definition feature_dict :: "my_params \<Rightarrow> module_state \<Rightarrow> string \<Rightarrow> fparams option" where
  \<comment> \<open>\<open>my_params[feature]\<close>, read through the store\<close>
  "feature_dict mp s feature = map_option (\<lambda>a. heap s ! a) (map_of (table mp) feature)"

subsection \<open>numpy helpers\<close>

text \<open>
  Arrays are nested lists. Where an axis may be empty the lengths of the inner axes are
  kept beside the data, since numpy decides on the shape alone whether an operation
  raises. A reduction without identity (\<open>min\<close>, \<open>max\<close>, \<open>ptp\<close>, \<open>argmax\<close>) raises
  \<open>ValueError\<close> when a reduced axis has length zero. A division by zero, which numpy
  answers with \<open>nan\<close> or an infinity and a warning, is 0 here.
\<close>

record traces =
  frames :: "real list list"
  num_cols :: nat

record waveforms =
  wf_rows :: "real list list list"
  wf_shape1 :: nat
  wf_shape2 :: nat

datatype feat_val = F1 "real list" | F2 "real list list" nat

datatype features_array = PerPeak "real list list" | PerChannel "real list list list"

definition arange :: "int \<Rightarrow> int \<Rightarrow> int list" where
  "arange a b = [a..b - 1]"

definition py_row :: "'a list \<Rightarrow> int \<Rightarrow> 'a option" where
  \<comment> \<open>one index of an index array along the first axis: numpy takes an index from
      \<open>-len\<close> to \<open>len - 1\<close>, a negative one counting from the end; \<open>None\<close>: out of bounds\<close>
  "py_row xs i =
     (if 0 \<le> i \<and> i < int (length xs) then Some (xs ! nat i)
      else if - int (length xs) \<le> i \<and> i < 0 then Some (xs ! nat (int (length xs) + i))
      else None)"

definition extract_waveforms :: "traces \<Rightarrow> peak list \<Rightarrow> int \<Rightarrow> int \<Rightarrow> error + waveforms" where
  \<comment> \<open>\<open>traces[local_peak['sample_ind'][:, None] + np.arange(-nbefore, nafter), :]\<close>\<close>
  "extract_waveforms tr local_peak nb na =
     (case those (map (\<lambda>p. those (map (\<lambda>k. py_row (frames tr) (sample_ind p + k))
                                       (arange (- nb) na))) local_peak) of
        None \<Rightarrow> Inl IndexError
      | Some rows \<Rightarrow>
          Inr \<lparr>wf_rows = rows, wf_shape1 = length (arange (- nb) na),
                wf_shape2 = num_cols tr\<rparr>)"

definition list_min :: "real list \<Rightarrow> real" where
  "list_min xs = fold min (tl xs) (hd xs)"

definition list_max :: "real list \<Rightarrow> real" where
  "list_max xs = fold max (tl xs) (hd xs)"

definition column :: "real list list \<Rightarrow> nat \<Rightarrow> real list" where
  \<comment> \<open>the values of one channel over the time axis of one waveform\<close>
  "column w j = map (\<lambda>r. r ! j) w"

definition ptp :: "real list \<Rightarrow> real" where
  "ptp xs = list_max xs - list_min xs"

definition argmax :: "real list \<Rightarrow> nat" where
  \<comment> \<open>the first index of the maximum\<close>
  "argmax xs = length (takeWhile (\<lambda>x. x \<noteq> list_max xs) xs)"

definition where_chan :: "peak list \<Rightarrow> nat \<Rightarrow> nat list" where
  \<comment> \<open>\<open>np.where(local_peak['channel_ind'] == main_chan)[0]\<close>. The source keeps the result
      in \<open>_loop_idx\<close> for the later features of the same call; the peaks do not change
      during the call, so the kept value is the value computed here.\<close>
  "where_chan local_peak main_chan =
     filter (\<lambda>i. channel_ind (local_peak ! i) = int main_chan) [0..<length local_peak]"

definition nonzero :: "bool list \<Rightarrow> nat list" where
  "nonzero bs = filter (\<lambda>j. bs ! j) [0..<length bs]"

definition assign_rows :: "'a list \<Rightarrow> nat list \<Rightarrow> 'a list \<Rightarrow> 'a list" where
  \<comment> \<open>\<open>xs[idx] = vs\<close>, with as many values as indices\<close>
  "assign_rows xs idx vs = fold (\<lambda>(i, v) ys. ys[i := v]) (zip idx vs) xs"

definition broadcastable :: "nat \<Rightarrow> nat \<Rightarrow> bool" where
  \<comment> \<open>two lengths of one axis that numpy broadcasts together\<close>
  "broadcastable m n = (m = n \<or> m = 1 \<or> n = 1)"

definition mul_row :: "real list \<Rightarrow> bool list \<Rightarrow> real list" where
  \<comment> \<open>a row of channel values times a row of the mask, broadcast; \<open>True\<close> is 1\<close>
  "mul_row r bs =
     (if length r = length bs then map2 (\<lambda>x b. if b then x else 0) r bs
      else if length bs = 1 then map (\<lambda>x. if hd bs then x else 0) r
      else map (\<lambda>b. if b then hd r else 0) bs)"

definition frobenius :: "real list list \<Rightarrow> real" where
  \<comment> \<open>\<open>np.linalg.norm\<close> over both axes of a matrix\<close>
  "frobenius m = sqrt (sum_list (map (\<lambda>x. x * x) (concat m)))"

definition dot_row :: "real list \<Rightarrow> real list list \<Rightarrow> nat \<Rightarrow> real list" where
  \<comment> \<open>a row vector times a matrix of \<open>d\<close> columns\<close>
  "dot_row v m d = map (\<lambda>c. sum_list (map2 (\<lambda>x r. x * (r ! c)) v m)) [0..<d]"

definition sub_rows :: "real list \<Rightarrow> real list \<Rightarrow> real list" where
  \<comment> \<open>the difference of two rows, broadcast\<close>
  "sub_rows xs ys =
     (if length xs = length ys then map2 (\<lambda>x y. x - y) xs ys
      else if length ys = 1 then map (\<lambda>x. x - hd ys) xs
      else map (\<lambda>y. hd xs - y) ys)"

definition norm_row :: "real list \<Rightarrow> real" where
  "norm_row xs = sqrt (sum_list (map (\<lambda>x. x * x) xs))"

definition fit_row :: "real list \<Rightarrow> nat \<Rightarrow> real list" where
  \<comment> \<open>a row broadcast to \<open>n\<close> entries: itself, or its one entry \<open>n\<close> times\<close>
  "fit_row xs n = (if length xs = n then xs else replicate n (hd xs))"

subsection \<open>The feature engine: \<open>compute_features\<close> (lines 226-346)\<close>

definition amplitude_feature ::
  "bool \<Rightarrow> string option \<Rightarrow> waveforms \<Rightarrow> peak list \<Rightarrow> error + feat_val option" where
  \<comment> \<open>lines 265-283; the second argument is the entry \<open>peak_sign\<close> of the feature's
      dictionary, read only when the window is not empty. \<open>Inr None\<close>: no branch assigns
      \<open>features\<close>. In the per-channel branch \<open>np.abs(wf, axis=1)\<close> passes \<open>axis\<close> to the ufunc
      \<open>np.abs\<close>, which takes no such keyword and raises \<open>TypeError\<close>.\<close>
  "amplitude_feature one_per_peak sign_entry wfs local_peak =
     (if wf_shape1 wfs = 0 then Inr (Some (F1 (map amplitude local_peak)))
      else case sign_entry of
        None \<Rightarrow> Inl KeyError
      | Some sign \<Rightarrow>
         (if one_per_peak then
            (if sign = ''neg'' then
               (if wf_shape2 wfs = 0 then Inl ValueError
                else Inr (Some (F1 (map (\<lambda>w. list_min (concat w)) (wf_rows wfs)))))
             else if sign = ''pos'' then
               (if wf_shape2 wfs = 0 then Inl ValueError
                else Inr (Some (F1 (map (\<lambda>w. list_max (concat w)) (wf_rows wfs)))))
             else if sign = ''both'' then
               (if wf_shape2 wfs = 0 then Inl ValueError
                else Inr (Some (F1 (map (\<lambda>w. list_max (map abs (concat w))) (wf_rows wfs)))))
             else Inr None)
          else
            (if sign = ''both'' then Inl TypeError
             else if sign = ''neg'' then
               Inr (Some (F2 (map (\<lambda>w. map (\<lambda>j. list_min (column w j)) [0..<wf_shape2 wfs])
                                (wf_rows wfs)) (wf_shape2 wfs)))
             else if sign = ''pos'' then
               Inr (Some (F2 (map (\<lambda>w. map (\<lambda>j. list_max (column w j)) [0..<wf_shape2 wfs])
                                (wf_rows wfs)) (wf_shape2 wfs)))
             else Inr None)))"

definition ptp_feature :: "bool \<Rightarrow> waveforms \<Rightarrow> error + feat_val option" where
  \<comment> \<open>lines 285-290\<close>
  "ptp_feature one_per_peak wfs =
     (if wf_shape1 wfs = 0 then Inl ValueError
      else let all_ptps = map (\<lambda>w. map (\<lambda>j. ptp (column w j)) [0..<wf_shape2 wfs]) (wf_rows wfs)
        in if one_per_peak then
             (if wf_shape2 wfs = 0 then Inl ValueError
              else Inr (Some (F1 (map list_max all_ptps))))
           else Inr (Some (F2 all_ptps (wf_shape2 wfs))))"

fun energy_loop ::
  "waveforms \<Rightarrow> peak list \<Rightarrow> bool list list \<Rightarrow> nat list \<Rightarrow> real list \<Rightarrow> error + real list" where
  \<comment> \<open>lines 294-301\<close>
  "energy_loop wfs local_peak smask [] features = Inr features"
| "energy_loop wfs local_peak smask (main_chan # rest) features =
     (let idx = where_chan local_peak main_chan in
      if length smask \<le> main_chan then Inl IndexError
      else let row = smask ! main_chan;
               nb_channels = real (length (filter (\<lambda>b. b) row)) in
        if \<not> broadcastable (wf_shape2 wfs) (length row) then Inl ValueError
        else energy_loop wfs local_peak smask rest
               (assign_rows features idx
                  (map (\<lambda>i. frobenius (map (\<lambda>r. mul_row r row) (wf_rows wfs ! i))
                              / sqrt nb_channels) idx)))"

definition neighbour_ptp ::
  "waveforms \<Rightarrow> nat list \<Rightarrow> nat list \<Rightarrow> error + real list list" where
  \<comment> \<open>\<open>(wf[idx][:, :, chan_inds]).ptp(axis=1)\<close>, lines 314 and 328\<close>
  "neighbour_ptp wfs idx chan_inds =
     (if chan_inds \<noteq> [] \<and> list_ex (\<lambda>c. wf_shape2 wfs \<le> c) chan_inds then Inl IndexError
      else if wf_shape1 wfs = 0 then Inl ValueError
      else Inr (map (\<lambda>i. map (\<lambda>c. ptp (column (wf_rows wfs ! i) c)) chan_inds) idx))"

definition contact_locations :: "real list list \<Rightarrow> nat list \<Rightarrow> error + real list list" where
  \<comment> \<open>\<open>feature_params['chan_locs'][chan_inds, :]\<close>\<close>
  "contact_locations locs chan_inds =
     (if chan_inds \<noteq> [] \<and> list_ex (\<lambda>c. length locs \<le> c) chan_inds then Inl IndexError
      else Inr (map (\<lambda>c. locs ! c) chan_inds))"

fun com_loop ::
  "waveforms \<Rightarrow> peak list \<Rightarrow> bool list list \<Rightarrow> real list list \<Rightarrow> nat \<Rightarrow> nat list
     \<Rightarrow> real list list \<Rightarrow> error + real list list" where
  \<comment> \<open>lines 305-315; the fifth argument is \<open>nb_com_dims\<close>\<close>
  "com_loop wfs local_peak smask locs nb [] features = Inr features"
| "com_loop wfs local_peak smask locs nb (main_chan # rest) features =
     (let idx = where_chan local_peak main_chan in
      if length smask \<le> main_chan then Inl IndexError
      else let chan_inds = nonzero (smask ! main_chan) in
        case contact_locations locs chan_inds of
          Inl e \<Rightarrow> Inl e
        | Inr local_contact_locations \<Rightarrow>
            (case neighbour_ptp wfs idx chan_inds of
               Inl e \<Rightarrow> Inl e
             | Inr wf_ptp \<Rightarrow>
                 let d = shape2 locs ! 1 in
                 if d \<noteq> nb \<and> d \<noteq> 1 then Inl ValueError
                 else com_loop wfs local_peak smask locs nb rest
                        (assign_rows features idx
                           (map (\<lambda>p. fit_row (map (\<lambda>x. x / sum_list p)
                                                  (dot_row p local_contact_locations d)) nb)
                                wf_ptp))))"

fun dist_loop ::
  "waveforms \<Rightarrow> peak list \<Rightarrow> bool list list \<Rightarrow> real list list \<Rightarrow> nat option \<Rightarrow> nat option
     \<Rightarrow> nat \<Rightarrow> features_array \<Rightarrow> nat list \<Rightarrow> real list \<Rightarrow> error + real list" where
  \<comment> \<open>lines 319-331; the arguments after the locations are the entry \<open>nb_com_dims\<close>,
      \<open>com_start\<close> (\<open>None\<close> when line 234 did not run), \<open>feature_size\<close> and the tensor
      \<open>peak_waveform_features\<close> as the earlier features left it\<close>
  "dist_loop wfs local_peak smask locs nb_entry com_start feature_size out [] features =
     Inr features"
| "dist_loop wfs local_peak smask locs nb_entry com_start feature_size out (main_chan # rest)
       features =
     (let idx = where_chan local_peak main_chan in
      if length smask \<le> main_chan then Inl IndexError
      else let chan_inds = nonzero (smask ! main_chan) in
        case contact_locations locs chan_inds of
          Inl e \<Rightarrow> Inl e
        | Inr local_contact_locations \<Rightarrow>
            (case neighbour_ptp wfs idx chan_inds of
               Inl e \<Rightarrow> Inl e
             | Inr wf_ptp \<Rightarrow>
                 if chan_inds = [] then Inl ValueError
                 else
                   (case (com_start, out) of
                      (Some c, PerPeak rows) \<Rightarrow>
                        (case nb_entry of
                           None \<Rightarrow> Inl KeyError
                         | Some nb \<Rightarrow>
                             let coms = map (\<lambda>i. take nb (drop c (rows ! i))) idx;
                                 d = shape2 locs ! 1;
                                 width = min nb (feature_size - c)
                             in if \<not> broadcastable d width then Inl ValueError
                                else dist_loop wfs local_peak smask locs nb_entry com_start
                                       feature_size out rest
                                       (assign_rows features idx
                                          (map2 (\<lambda>p cm. norm_row
                                                   (sub_rows (local_contact_locations ! argmax p) cm))
                                             wf_ptp coms)))
                    | _ \<Rightarrow> Inl NameError)))"

definition feature_window ::
  "my_params \<Rightarrow> fparams list \<Rightarrow> bool \<Rightarrow> string \<Rightarrow> error + int \<times> int" where
  \<comment> \<open>lines 256-263: \<open>nbefore\<close> and \<open>nafter\<close> of this turn; the third argument is
      \<open>wf is None\<close>, which holds in the first turn only\<close>
  "feature_window mp h first feature =
     (if global_times mp \<and> first then Inr (top_nbefore mp, top_nafter mp)
      else case map_of (table mp) feature of
        None \<Rightarrow> Inl KeyError
      | Some a \<Rightarrow>
          (case (nbefore (h ! a), nafter (h ! a)) of
             (Some nb, Some na) \<Rightarrow> Inr (nb, na)
           | _ \<Rightarrow> Inl KeyError))"

definition compute_feature ::
  "traces \<Rightarrow> peak list \<Rightarrow> my_params \<Rightarrow> fparams list \<Rightarrow> nat option \<Rightarrow> nat \<Rightarrow> string
     \<Rightarrow> waveforms \<Rightarrow> features_array \<Rightarrow> error + feat_val option" where
  \<comment> \<open>the branches of lines 265-331 for one feature; \<open>Inr None\<close>: \<open>features\<close> is not
      assigned in this turn. The loops over \<open>range(traces.shape[1])\<close> read the entries
      \<open>sparsity_mask\<close> and \<open>chan_locs\<close> in their first turn, so a missing entry raises only
      when there is a channel.\<close>
  "compute_feature tr local_peak mp h com_start feature_size feature wfs out =
     (let n = length local_peak;
          chans = [0..<num_cols tr];
          entry = map_option (\<lambda>a. h ! a) (map_of (table mp) feature)
      in
      if feature = ''amplitude'' then
        amplitude_feature (one_feature_per_peak mp)
          (case entry of None \<Rightarrow> None | Some d \<Rightarrow> peak_sign d) wfs local_peak
      else if feature = ''ptp'' then ptp_feature (one_feature_per_peak mp) wfs
      else if feature = ''energy'' then
        (if chans = [] then Inr (Some (F1 (replicate n 0)))
         else case (case entry of None \<Rightarrow> None | Some d \<Rightarrow> sparsity_mask d) of
           None \<Rightarrow> Inl KeyError
         | Some smask \<Rightarrow>
             (case energy_loop wfs local_peak smask chans (replicate n 0) of
                Inl e \<Rightarrow> Inl e
              | Inr features \<Rightarrow> Inr (Some (F1 features))))
      else if feature = ''com'' then
        (case nb_com_dims mp of
           None \<Rightarrow> Inl KeyError
         | Some nb \<Rightarrow>
             if chans = [] then Inr (Some (F2 (replicate n (replicate nb 0)) nb))
             else case (case entry of None \<Rightarrow> None | Some d \<Rightarrow> sparsity_mask d) of
               None \<Rightarrow> Inl KeyError
             | Some smask \<Rightarrow>
                 (case chan_locs mp of
                    None \<Rightarrow> Inl KeyError
                  | Some locs \<Rightarrow>
                      (case com_loop wfs local_peak smask locs nb chans
                              (replicate n (replicate nb 0)) of
                         Inl e \<Rightarrow> Inl e
                       | Inr features \<Rightarrow> Inr (Some (F2 features nb)))))
      else if feature = ''dist_com_vs_max_ptp_channel'' then
        (if chans = [] then Inr (Some (F1 (replicate n 0)))
         else case (case entry of None \<Rightarrow> None | Some d \<Rightarrow> sparsity_mask d) of
           None \<Rightarrow> Inl KeyError
         | Some smask \<Rightarrow>
             (case chan_locs mp of
                None \<Rightarrow> Inl KeyError
              | Some locs \<Rightarrow>
                  (case dist_loop wfs local_peak smask locs (nb_com_dims mp) com_start
                          feature_size out chans (replicate n 0) of
                     Inl e \<Rightarrow> Inl e
                   | Inr features \<Rightarrow> Inr (Some (F1 features)))))
      else Inr None)"

text \<open>
  The assignments of lines 334-344. numpy broadcasts the value to the shape of the target:
  the trailing axes are aligned, each length of the value equals the target's or is one,
  and an axis the value has beyond the target's has length one.
\<close>

definition broadcast_1d :: "feat_val \<Rightarrow> nat \<Rightarrow> real list option" where
  \<comment> \<open>the value as an array of shape \<open>(n,)\<close>; \<open>None\<close>: the shapes do not fit\<close>
  "broadcast_1d v n =
     (case v of
        F1 xs \<Rightarrow> if length xs = n \<or> length xs = 1 then Some (fit_row xs n) else None
      | F2 rows d \<Rightarrow>
          if length rows = 1 \<and> (d = n \<or> d = 1) then Some (fit_row (hd rows) n) else None)"

definition broadcast_2d :: "feat_val \<Rightarrow> nat \<Rightarrow> nat \<Rightarrow> real list list option" where
  \<comment> \<open>the value as an array of shape \<open>(n, m)\<close>; \<open>None\<close>: the shapes do not fit\<close>
  "broadcast_2d v n m =
     (case v of
        F1 xs \<Rightarrow> if length xs = m \<or> length xs = 1
                 then Some (replicate n (fit_row xs m)) else None
      | F2 rows d \<Rightarrow>
          if (length rows = n \<or> length rows = 1) \<and> (d = m \<or> d = 1)
          then Some (map (\<lambda>r. fit_row r m)
                       (if length rows = n then rows else replicate n (hd rows)))
          else None)"

definition write_features ::
  "my_params \<Rightarrow> nat \<Rightarrow> nat \<Rightarrow> string \<Rightarrow> nat \<Rightarrow> feat_val option \<Rightarrow> features_array
     \<Rightarrow> error + features_array \<times> nat" where
  \<comment> \<open>lines 334-344: the tensor and \<open>feature_idx\<close> after the assignment. The second and
      third arguments are \<open>traces.shape[1]\<close> and \<open>feature_size\<close>.\<close>
  "write_features mp ncols feature_size feature feature_idx features out =
     (case out of
        PerPeak rows \<Rightarrow>
          if feature \<noteq> ''com'' then
            (case features of
               None \<Rightarrow> Inl NameError
             | Some v \<Rightarrow>
                 if feature_size \<le> feature_idx then Inl IndexError
                 else (case broadcast_1d v (length rows) of
                         None \<Rightarrow> Inl ValueError
                       | Some vs \<Rightarrow>
                           Inr (PerPeak (map2 (\<lambda>r x. r[feature_idx := x]) rows vs),
                                feature_idx + 1)))
          else
            (case features of
               None \<Rightarrow> Inl NameError
             | Some v \<Rightarrow>
                 (case nb_com_dims mp of
                    None \<Rightarrow> Inl KeyError
                  | Some nb \<Rightarrow>
                      let width = min nb (feature_size - feature_idx) in
                      (case broadcast_2d v (length rows) width of
                         None \<Rightarrow> Inl ValueError
                       | Some vs \<Rightarrow>
                           Inr (PerPeak (map2 (\<lambda>r xs. take feature_idx r @ xs
                                                   @ drop (feature_idx + width) r) rows vs),
                                feature_idx + nb))))
      | PerChannel slabs \<Rightarrow>
          (case features of
             None \<Rightarrow> Inl NameError
           | Some v \<Rightarrow>
               if feature_size \<le> feature_idx then Inl IndexError
               else (case broadcast_2d v (length slabs) ncols of
                       None \<Rightarrow> Inl ValueError
                     | Some vs \<Rightarrow>
                         Inr (PerChannel
                                (map2 (\<lambda>slab xs. map2 (\<lambda>r x. r[feature_idx := x]) slab xs)
                                   slabs vs),
                              feature_idx + 1))))"

fun features_loop ::
  "traces \<Rightarrow> peak list \<Rightarrow> my_params \<Rightarrow> fparams list \<Rightarrow> nat option \<Rightarrow> nat \<Rightarrow> string list
     \<Rightarrow> nat \<Rightarrow> bool \<Rightarrow> feat_val option \<Rightarrow> features_array \<Rightarrow> error + features_array" where
  \<comment> \<open>the loop of lines 254-344; its state is \<open>feature_idx\<close>, whether \<open>wf\<close> is still
      \<open>None\<close>, the variable \<open>features\<close> (\<open>None\<close>: not bound yet) and the tensor\<close>
  "features_loop tr local_peak mp h com_start feature_size [] feature_idx first features out =
     Inr out"
| "features_loop tr local_peak mp h com_start feature_size (feature # rest) feature_idx first
       features out =
     (case feature_window mp h first feature of
        Inl e \<Rightarrow> Inl e
      | Inr (nb, na) \<Rightarrow>
          (case extract_waveforms tr local_peak nb na of
             Inl e \<Rightarrow> Inl e
           | Inr wfs \<Rightarrow>
               (case compute_feature tr local_peak mp h com_start feature_size feature wfs out of
                  Inl e \<Rightarrow> Inl e
                | Inr assigned \<Rightarrow>
                    let features' = (case assigned of None \<Rightarrow> features | Some v \<Rightarrow> Some v) in
                    (case write_features mp (num_cols tr) feature_size feature feature_idx
                            features' out of
                       Inl e \<Rightarrow> Inl e
                     | Inr (out', feature_idx') \<Rightarrow>
                         features_loop tr local_peak mp h com_start feature_size rest
                           feature_idx' False features' out'))))"

definition compute_features ::
  "traces \<Rightarrow> peak list \<Rightarrow> string list \<Rightarrow> my_params \<Rightarrow> fparams list \<Rightarrow> error + features_array" where
  \<comment> \<open>lines 226-346; \<open>feature_params\<close> is the dictionary \<open>my_params\<close> and the store that
      holds its inner dictionaries\<close>
  "compute_features tr local_peak feature_list mp h =
     (let n = length local_peak in
      if one_feature_per_peak mp then
        (if ''com'' \<in> set feature_list then
           (case nb_com_dims mp of
              None \<Rightarrow> Inl KeyError
            | Some nb \<Rightarrow>
                let feature_size = length feature_list + nb - 1;
                    com_start = length (takeWhile (\<lambda>f. f \<noteq> ''com'') feature_list)
                in features_loop tr local_peak mp h (Some com_start) feature_size feature_list
                     0 True None (PerPeak (replicate n (replicate feature_size 0))))
         else
           let feature_size = length feature_list
           in features_loop tr local_peak mp h None feature_size feature_list
                0 True None (PerPeak (replicate n (replicate feature_size 0))))
      else
        let feature_size = length feature_list
        in features_loop tr local_peak mp h None feature_size feature_list
             0 True None
             (PerChannel (replicate n (replicate (num_cols tr) (replicate feature_size 0)))))"

subsection \<open>The chunk dispatcher (lines 131-156 and 188-223)\<close>

definition searchsorted :: "int list \<Rightarrow> int \<Rightarrow> nat" where
  \<comment> \<open>\<open>np.searchsorted(a, v)\<close> on an array in ascending order (numpy asks for one, and the
      peaks come sorted by segment and sample): the number of entries below \<open>v\<close>\<close>
  "searchsorted a v = length (takeWhile (\<lambda>x. x < v) a)"

definition py_slice :: "'a list \<Rightarrow> nat \<Rightarrow> nat \<Rightarrow> 'a list" where
  \<comment> \<open>\<open>xs[i0:i1]\<close>\<close>
  "py_slice xs i0 i1 = take (i1 - i0) (drop i0 xs)"

text \<open>
  Modelled from the spec: \<open>get_chunk_with_margin\<close> of \<open>spikeinterface.core\<close>, which is not
  among the source files. The spec has it read a sample range with margin as a buffer,
  samples by channels, zero-padding past the signal's edges, and return the buffer with
  the left and right margin used. With \<open>add_zeros=True\<close> the margin used is the margin
  asked for.
\<close>

definition get_chunk_with_margin ::
  "real list list \<Rightarrow> nat \<Rightarrow> int \<Rightarrow> int \<Rightarrow> int \<Rightarrow> traces \<times> int \<times> int" where
  "get_chunk_with_margin recording_segment ncols start_frame end_frame margin =
     (\<lparr>frames = map (\<lambda>t. if 0 \<le> t \<and> t < int (length recording_segment)
                           then recording_segment ! nat t else replicate ncols 0)
                  [start_frame - margin..end_frame + margin - 1],
       num_cols = ncols\<rparr>, margin, margin)"

record worker_ctx =
  ctx_recording :: recording
  ctx_peaks :: "peak list"
  ctx_margin :: int
  ctx_feature_list :: "string list"
  ctx_feature_params :: my_params
  ctx_store :: "fparams list"

definition compute_features_from_peaks_chunk ::
  "nat \<Rightarrow> int \<Rightarrow> int \<Rightarrow> worker_ctx \<Rightarrow> error + features_array" where
  \<comment> \<open>\<open>_compute_features_from_peaks_chunk\<close>, lines 188-223\<close>
  "compute_features_from_peaks_chunk segment_index start_frame end_frame ctx =
     (let rec = ctx_recording ctx; peaks = ctx_peaks ctx in
      if length (recording_segments rec) \<le> segment_index then Inl IndexError
      else
        let (tr, left_margin, right_margin) =
              get_chunk_with_margin (recording_segments rec ! segment_index)
                (get_num_channels rec) start_frame end_frame (ctx_margin ctx);
            i0 = searchsorted (map segment_ind peaks) (int segment_index);
            i1 = searchsorted (map segment_ind peaks) (int segment_index + 1);
            peak_in_segment = py_slice peaks i0 i1;
            j0 = searchsorted (map sample_ind peak_in_segment) start_frame;
            j1 = searchsorted (map sample_ind peak_in_segment) end_frame;
            local_peaks = map (\<lambda>p. p\<lparr>sample_ind := sample_ind p - (start_frame - left_margin)\<rparr>)
                            (py_slice peak_in_segment j0 j1)
        in compute_features tr local_peaks (ctx_feature_list ctx) (ctx_feature_params ctx)
             (ctx_store ctx))"

text \<open>
  Modelled from the spec: \<open>ChunkRecordingExecutor.run\<close> of \<open>spikeinterface.core\<close>, which is
  not among the source files. The spec has the engine return the per-chunk outputs in
  chunk order and abort the run at the first chunk that fails. The chunks, each a segment
  index with a first and a last frame, are what the engine makes of \<open>job_kwargs\<close>.
\<close>

fun executor_run ::
  "(nat \<Rightarrow> int \<Rightarrow> int \<Rightarrow> error + 'a) \<Rightarrow> (nat \<times> int \<times> int) list \<Rightarrow> error + 'a list" where
  "executor_run func [] = Inr []"
| "executor_run func ((segment_index, start_frame, end_frame) # rest) =
     (case func segment_index start_frame end_frame of
        Inl e \<Rightarrow> Inl e
      | Inr out \<Rightarrow>
          (case executor_run func rest of
             Inl e \<Rightarrow> Inl e
           | Inr outs \<Rightarrow> Inr (out # outs)))"

fun concat_arrays :: "features_array \<Rightarrow> features_array list \<Rightarrow> error + features_array" where
  "concat_arrays a [] = Inr a"
| "concat_arrays (PerPeak r) (PerPeak r' # rest) = concat_arrays (PerPeak (r @ r')) rest"
| "concat_arrays (PerChannel r) (PerChannel r' # rest) = concat_arrays (PerChannel (r @ r')) rest"
| "concat_arrays (PerPeak r) (PerChannel r' # rest) = Inl ValueError"
| "concat_arrays (PerChannel r) (PerPeak r' # rest) = Inl ValueError"

definition np_concatenate :: "features_array list \<Rightarrow> error + features_array" where
  \<comment> \<open>\<open>np.concatenate\<close> along the first axis; it needs at least one array\<close>
  "np_concatenate arrays = (case arrays of [] \<Rightarrow> Inl ValueError | a # rest \<Rightarrow> concat_arrays a rest)"

definition compute_features_from_peaks ::
  "module_state \<Rightarrow> recording \<Rightarrow> peak list \<Rightarrow> string list \<Rightarrow> (string \<times> feature_override) list
     \<Rightarrow> real \<Rightarrow> real \<Rightarrow> bool \<Rightarrow> string option \<Rightarrow> (nat \<times> int \<times> int) list
     \<Rightarrow> (error + features_array) \<times> module_state" where
  \<comment> \<open>lines 19-156; the last argument is the chunks\<close>
  "compute_features_from_peaks s rec peaks feature_list feature_params ms_before_arg ms_after_arg
       one_feature_per_peak_arg smoothing_arg chunks =
     (case resolve_params s rec (length peaks) feature_list feature_params ms_before_arg
             ms_after_arg one_feature_per_peak_arg smoothing_arg of
        (Inl e, s') \<Rightarrow> (Inl e, s')
      | (Inr mp, s') \<Rightarrow>
          let margin = max (top_nbefore mp) (top_nafter mp);
              ctx = \<lparr>ctx_recording = rec, ctx_peaks = peaks, ctx_margin = margin,
                     ctx_feature_list = feature_list, ctx_feature_params = mp,
                     ctx_store = heap s'\<rparr>
          in (case executor_run (\<lambda>seg a b. compute_features_from_peaks_chunk seg a b ctx) chunks of
                Inl e \<Rightarrow> (Inl e, s')
              | Inr outs \<Rightarrow> (np_concatenate outs, s')))"

subsection \<open>Example inputs\<close>

definition example_recording :: recording where
  \<comment> \<open>two channels 10 um apart on a plane, one segment of four frames, 1 kHz\<close>
  "example_recording =
     \<lparr>get_sampling_frequency = 1000, get_num_channels = 2,
      get_channel_locations = [[0, 0], [10, 0]],
      get_channel_distances = [[0, 10], [10, 0]],
      recording_segments = [[[1, -2], [3, 4], [-5, 6], [7, -8]]]\<rparr>"

definition example_recording_3d :: recording where
  \<comment> \<open>the same channels with three coordinates each\<close>
  "example_recording_3d = example_recording\<lparr>get_channel_locations := [[0, 0, 0], [10, 0, 0]]\<rparr>"

definition example_peaks :: "peak list" where
  "example_peaks =
     [\<lparr>segment_ind = 0, sample_ind = 1, channel_ind = 0, amplitude = -5\<rparr>,
      \<lparr>segment_ind = 0, sample_ind = 2, channel_ind = 1, amplitude = -7\<rparr>]"

definition no_override :: feature_override where
  "no_override = \<lparr>set_peak_sign = None, set_ms_before = None, set_ms_after = None,
     set_local_radius_um = None\<rparr>"

subsection \<open>Reading a resolution's outcome\<close>

definition resolved_window ::
  "(error + my_params) \<times> module_state \<Rightarrow> string \<Rightarrow> (int \<times> int) option" where
  \<comment> \<open>the entries \<open>nbefore\<close> and \<open>nafter\<close> of \<open>my_params[feature]\<close> after a resolution
      that did not raise\<close>
  "resolved_window r feature =
     (case r of
        (Inl e, s') \<Rightarrow> None
      | (Inr mp, s') \<Rightarrow>
          (case feature_dict mp s' feature of
             None \<Rightarrow> None
           | Some d \<Rightarrow>
               (case (nbefore d, nafter d) of
                  (Some nb, Some na) \<Rightarrow> Some (nb, na)
                | _ \<Rightarrow> None)))"


definition compute_features_with ::
  "(error + my_params) \<times> module_state \<Rightarrow> traces \<Rightarrow> peak list \<Rightarrow> string list
     \<Rightarrow> error + features_array" where
  \<comment> \<open>\<open>compute_features\<close> on the configuration that a resolution returned\<close>
  "compute_features_with r tr local_peak feature_list =
     (case r of
        (Inl e, s') \<Rightarrow> Inl e
      | (Inr mp, s') \<Rightarrow> compute_features tr local_peak feature_list mp (heap s'))"

text \<open>
  The segment of \<open>example_recording\<close> with one frame of margin on each side, and the peaks
  of \<open>example_peaks\<close> with their samples counted in that buffer.
\<close>

definition example_traces :: traces where
  "example_traces =
     \<lparr>frames = [[0, 0], [1, -2], [3, 4], [-5, 6], [7, -8], [0, 0]], num_cols = 2\<rparr>"

definition example_local_peaks :: "peak list" where
  "example_local_peaks =
     [\<lparr>segment_ind = 0, sample_ind = 2, channel_ind = 0, amplitude = -5\<rparr>,
      \<lparr>segment_ind = 0, sample_ind = 3, channel_ind = 1, amplitude = -7\<rparr>]"

subsection \<open>Predicates on the store\<close>




section \<open>Properties\<close>

subsection \<open>Unfolding the model on concrete inputs\<close>

lemmas float_defs =
  ms_to_samples_def to_double_def pow2_def round_half_even_def py_int_def Let_def
  eval_nat_numeral

lemma sample_counts:
  "ms_to_samples 0 1000 = Inr 0"
  "ms_to_samples 1 1000 = Inr 1"
  "ms_to_samples 2 1000 = Inr 2"
  "ms_to_samples 1 1700 = Inr 1"
  "ms_to_samples (3 / 10) 30000 = Inr 9"
  "ms_to_samples (- (3 / 10)) 30000 = Inr (- 9)"
  "ms_to_samples (41 / 10) 30000 = Inr 122"
  by (simp_all add: float_defs)

lemmas resolve_defs =
  resolve_params_def initial_state_def select_table_def resolve_feature_def no_window_def
  sample_counts build_sparsity_mask_def closest_chans_def set_true_def Let_def
  upt_rec shape2_def feature_dict_def dict_update_def no_override_def resolved_window_def
  eval_nat_numeral

lemmas engine_defs =
  compute_features_from_peaks_def compute_features_from_peaks_chunk_def
  get_chunk_with_margin_def searchsorted_def py_slice_def np_concatenate_def
  compute_features_def feature_window_def extract_waveforms_def arange_def py_row_def
  compute_feature_def amplitude_feature_def ptp_feature_def write_features_def
  broadcast_1d_def broadcast_2d_def fit_row_def list_min_def list_max_def column_def ptp_def
  upto.simps compute_features_with_def

lemmas example_defs =
  example_recording_def example_recording_3d_def example_peaks_def example_traces_def
  example_local_peaks_def

subsection \<open>The dependency check\<close>

lemma check_features_dependency:
  "check_features keys hc fl = Some MissingDependencyError \<longleftrightarrow>
     (\<exists>i<length fl. fl ! i = ''dist_com_vs_max_ptp_channel'' \<and> \<not> hc
        \<and> ''com'' \<notin> set (take i fl) \<and> set (take (Suc i) fl) \<subseteq> set keys)"
proof (induction fl arbitrary: hc)
  case Nil
  then show ?case by simp
next
  case (Cons f rest)
  show ?case
  proof (cases "f \<in> set keys")
    case False
    then show ?thesis by auto
  next
    case known: True
    show ?thesis
    proof (cases "f = ''dist_com_vs_max_ptp_channel'' \<and> \<not> hc")
      case True
      then have "check_features keys hc (f # rest) = Some MissingDependencyError"
        using known by simp
      moreover have "\<exists>i<length (f # rest). (f # rest) ! i = ''dist_com_vs_max_ptp_channel'' \<and> \<not> hc
          \<and> ''com'' \<notin> set (take i (f # rest)) \<and> set (take (Suc i) (f # rest)) \<subseteq> set keys"
        using True known by (intro exI[of _ 0]) simp
      ultimately show ?thesis by simp
    next
      case False
      then have step: "check_features keys hc (f # rest) = check_features keys (hc \<or> f = ''com'') rest"
        using known by (auto simp: Let_def)
      show ?thesis
        unfolding step Cons.IH
        using False known by (auto simp: Ex_less_Suc2)
    qed
  qed
qed

lemma update_params_error:
  "fst (update_params tbl fp h) = None \<or> fst (update_params tbl fp h) = Some KeyError"
  by (induction tbl fp h rule: update_params.induct) (auto split: option.splits)

lemma update_params_ok:
  "fst (update_params tbl fp h) = None \<longleftrightarrow> set (map fst fp) \<subseteq> set (map fst tbl)"
proof (induction tbl fp h rule: update_params.induct)
  case (1 tbl h)
  then show ?case by simp
next
  case (2 tbl key ov rest h)
  show ?case
  proof (cases "map_of tbl key")
    case None
    then have "key \<notin> set (map fst tbl)" by (simp add: map_of_eq_None_iff)
    with None show ?thesis by auto
  next
    case (Some a)
    then have "key \<in> set (map fst tbl)" by (metis map_of_eq_None_iff option.distinct(1) set_map)
    with Some 2 show ?thesis by simp
  qed
qed

lemma fill_mask_error:
  "fill_mask dists radius num_chans cs smask = Inl e \<Longrightarrow> e = IndexError"
  by (induction dists radius num_chans cs smask rule: fill_mask.induct)
     (auto simp: Let_def split: if_splits)

lemma ms_to_samples_error:
  "ms_to_samples ms fs = Inl e \<Longrightarrow> e = OverflowError \<or> e = ValueError"
  by (auto simp: ms_to_samples_def split: option.splits if_splits)

lemma resolve_feature_error:
  "fst (resolve_feature rec n tbl f L h) = Inl e
     \<Longrightarrow> e = KeyError \<or> e = IndexError \<or> e = OverflowError \<or> e = ValueError"
  by (auto simp: resolve_feature_def build_sparsity_mask_def Let_def
           split: option.splits prod.splits sum.splits
           dest: fill_mask_error ms_to_samples_error)

lemma resolve_loop_error:
  "fst (resolve_loop rec n tbl fl L h) = Inl e
     \<Longrightarrow> e = KeyError \<or> e = IndexError \<or> e = OverflowError \<or> e = ValueError"
proof (induction fl arbitrary: L h)
  case Nil
  then show ?case by simp
next
  case (Cons f rest)
  obtain r h' where rf: "resolve_feature rec n tbl f L h = (r, h')" by (cases "resolve_feature rec n tbl f L h")
  show ?case
  proof (cases r)
    case (Inl e')
    with rf Cons.prems have "e = e'" by simp
    moreover have "fst (resolve_feature rec n tbl f L h) = Inl e'" using rf Inl by simp
    ultimately show ?thesis using resolve_feature_error by blast
  next
    case (Inr L')
    with rf Cons.prems have "fst (resolve_loop rec n tbl rest L' h') = Inl e" by simp
    then show ?thesis by (rule Cons.IH)
  qed
qed

lemma resolve_params_dependency:
  "fst (resolve_params s rec n fl fp msb msa ofpp sm) = Inl MissingDependencyError \<longleftrightarrow>
     set (map fst fp) \<subseteq> set (map fst (select_table s)) \<and>
     check_features (map fst (select_table s)) False fl = Some MissingDependencyError"
proof -
  obtain r h where up: "update_params (select_table s) fp (heap s) = (r, h)"
    by (cases "update_params (select_table s) fp (heap s)")
  have r_cases: "r = None \<or> r = Some KeyError" using update_params_error[of "select_table s" fp "heap s"] up by simp
  have r_ok: "r = None \<longleftrightarrow> set (map fst fp) \<subseteq> set (map fst (select_table s))"
    using update_params_ok[of "select_table s" fp "heap s"] up by simp
  show ?thesis
  proof (cases r)
    case (Some e)
    with r_cases have "e = KeyError" by simp
    with Some up r_ok show ?thesis by (simp add: resolve_params_def Let_def)
  next
    case None
    show ?thesis
    proof (cases "check_features (map fst (select_table s)) False fl")
      case (Some e)
      with None up r_ok show ?thesis by (simp add: resolve_params_def Let_def)
    next
      case cf: None
      obtain r2 h2 where rl: "resolve_loop rec n (select_table s) fl
           \<lparr>cur_ms_before = msb, cur_ms_after = msa, nbefore_max = 0, nafter_max = 0,
            cur_global_times = True, cur_chan_locs = None, cur_nb_com_dims = None\<rparr> h = (r2, h2)"
        by (cases "resolve_loop rec n (select_table s) fl
           \<lparr>cur_ms_before = msb, cur_ms_after = msa, nbefore_max = 0, nafter_max = 0,
            cur_global_times = True, cur_chan_locs = None, cur_nb_com_dims = None\<rparr> h")
      have "fst (resolve_loop rec n (select_table s) fl
           \<lparr>cur_ms_before = msb, cur_ms_after = msa, nbefore_max = 0, nafter_max = 0,
            cur_global_times = True, cur_chan_locs = None, cur_nb_com_dims = None\<rparr> h) = r2"
        using rl by simp
      then have "r2 \<noteq> Inl MissingDependencyError"
        using resolve_loop_error by fastforce
      with None cf up rl show ?thesis
        by (cases r2) (simp_all add: resolve_params_def Let_def)
    qed
  qed
qed


text \<open>
  C4, as the spec has it: resolution fails with \<open>MissingDependencyError\<close> if and only if
  \<open>dist_com_vs_max_ptp_channel\<close> is in the list and \<open>com\<close> is nowhere in it. The request
  below has \<open>com\<close> in the list, after \<open>dist_com_vs_max_ptp_channel\<close>, and fails.
\<close>

theorem dependency_anywhere_counterexample:
  "fst (resolve_params initial_state example_recording 2
          [''dist_com_vs_max_ptp_channel'', ''com''] [] 1 1 True None)
     = Inl MissingDependencyError
   \<and> ''com'' \<in> set [''dist_com_vs_max_ptp_channel'', ''com'']"
  by (simp add: resolve_defs example_defs)

text \<open>
  C4, amended: resolution fails with \<open>MissingDependencyError\<close> if and only if every key of
  the overrides is a feature of the table and some \<open>dist_com_vs_max_ptp_channel\<close> of the
  list has no \<open>com\<close> before it, the names up to it being features of the table. A \<open>com\<close>
  later in the list does not count: the assertion asks for \<open>com\<close> to be computed first.
  When resolution fails so, \<open>compute_features_from_peaks\<close> fails so whatever the chunks:
  no chunk is processed.
\<close>

theorem dependency_error_iff:
  "(fst (resolve_params s rec (length peaks) fl fp msb msa ofpp sm) = Inl MissingDependencyError \<longleftrightarrow>
      set (map fst fp) \<subseteq> set (map fst (select_table s)) \<and>
      (\<exists>i<length fl. fl ! i = ''dist_com_vs_max_ptp_channel'' \<and> ''com'' \<notin> set (take i fl)
          \<and> set (take (Suc i) fl) \<subseteq> set (map fst (select_table s))))
   \<and> (fst (resolve_params s rec (length peaks) fl fp msb msa ofpp sm) = Inl MissingDependencyError \<longrightarrow>
        fst (compute_features_from_peaks s rec peaks fl fp msb msa ofpp sm chunks) = Inl MissingDependencyError)"
proof
  show "fst (resolve_params s rec (length peaks) fl fp msb msa ofpp sm) = Inl MissingDependencyError \<longleftrightarrow>
      set (map fst fp) \<subseteq> set (map fst (select_table s)) \<and>
      (\<exists>i<length fl. fl ! i = ''dist_com_vs_max_ptp_channel'' \<and> ''com'' \<notin> set (take i fl)
          \<and> set (take (Suc i) fl) \<subseteq> set (map fst (select_table s)))"
    unfolding resolve_params_dependency check_features_dependency by simp
next
  show "fst (resolve_params s rec (length peaks) fl fp msb msa ofpp sm) = Inl MissingDependencyError \<longrightarrow>
        fst (compute_features_from_peaks s rec peaks fl fp msb msa ofpp sm chunks) = Inl MissingDependencyError"
    by (auto simp: compute_features_from_peaks_def split: prod.splits sum.splits)
qed

theorem dependency_error_iff_witness:
  "fst (resolve_params initial_state example_recording (length example_peaks)
          [''ptp'', ''dist_com_vs_max_ptp_channel''] [] 1 1 True None)
     = Inl MissingDependencyError
   \<and> fst (compute_features_from_peaks initial_state example_recording example_peaks
          [''ptp'', ''dist_com_vs_max_ptp_channel''] [] 1 1 True None [(0, 0, 4)])
     = Inl MissingDependencyError"
proof -
  have ex: "\<exists>i<length [''ptp'', ''dist_com_vs_max_ptp_channel''].
      [''ptp'', ''dist_com_vs_max_ptp_channel''] ! i = ''dist_com_vs_max_ptp_channel''
      \<and> ''com'' \<notin> set (take i [''ptp'', ''dist_com_vs_max_ptp_channel''])
      \<and> set (take (Suc i) [''ptp'', ''dist_com_vs_max_ptp_channel''])
           \<subseteq> set (map fst (select_table initial_state))"
    by (intro exI[of _ 1]) (simp add: select_table_def initial_state_def)
  show ?thesis
    using ex dependency_error_iff [of initial_state example_recording example_peaks
        "[''ptp'', ''dist_com_vs_max_ptp_channel'']" "[]" 1 1 True None "[(0, 0, 4)]"]
    by simp
qed

subsection \<open>Milliseconds to samples\<close>

lemma py_int_toward_zero:
  "\<bar>real_of_int (py_int x)\<bar> \<le> \<bar>x\<bar> \<and> \<bar>x - real_of_int (py_int x)\<bar> < 1"
proof (cases "0 \<le> x")
  case True
  then have "0 \<le> \<lfloor>x\<rfloor>" by simp
  with True show ?thesis unfolding py_int_def by simp linarith
next
  case False
  then have "\<lceil>x\<rceil> \<le> 0" by (simp add: ceiling_le_iff)
  with False show ?thesis unfolding py_int_def by simp linarith
qed

lemma ms_to_samples_truncates:
  "ms_to_samples ms fs = Inr k \<Longrightarrow>
     \<exists>m f p q. to_double ms = Some m \<and> to_double fs = Some f \<and> to_double (m * f) = Some p
       \<and> to_double (p / 1000) = Some q \<and> k = py_int q"
  by (auto simp: ms_to_samples_def split: option.splits if_splits)





lemma check_features_known: "check_features keys hc fl = None \<Longrightarrow> set fl \<subseteq> set keys"
  by (induction fl arbitrary: hc) (auto simp: Let_def split: if_splits)











subsection \<open>Defects of the resolution\<close>

text \<open>The table that a resolution uses is the same for either value of the flag.\<close>

lemma flag_is_not_consulted:
  "map_sum id table (fst (resolve_params s rec n fl fp msb msa True sm))
     = map_sum id table (fst (resolve_params s rec n fl fp msb msa False sm))"
  by (simp add: resolve_params_def Let_def split: prod.splits option.splits sum.splits)

text \<open>
  C2: in per-channel mode (\<open>one_feature_per_peak = False\<close>) a feature outside the
  per-channel table is to fail with the unknown-feature error. Line 67 tests the table
  \<open>one_feature_per_peak_params\<close>, not the flag, so the scalar table is used in either mode:
  a request for \<open>energy\<close> in per-channel mode is resolved without error.
\<close>

theorem per_channel_mode_accepts_energy:
  "map_sum id one_feature_per_peak
     (fst (resolve_params initial_state example_recording 2 [''energy''] [] 1 1 False None))
     = Inr False
   \<and> ''energy'' \<notin> set (map fst (n_chans_features_per_peak_params initial_state))"
  by (simp add: resolve_defs example_defs)

text \<open>
  C3: a feature without an override, requested after one with an override, is to keep the
  global window. Line 90 assigns the override to the argument \<open>ms_before\<close> itself, so the
  later feature gets the earlier feature's window: with the global window at 1 ms (one
  sample at 1 kHz) and 2 ms before given for \<open>amplitude\<close>, \<open>ptp\<close> gets two samples before.
  The flag \<open>global_times\<close> is off, as the claim has it.
\<close>

theorem override_leaks_to_later_feature:
  "resolved_window
     (resolve_params initial_state example_recording 2 [''amplitude'', ''ptp'']
        [(''amplitude'', no_override\<lparr>set_ms_before := Some (Some 2)\<rparr>)] 1 1 True None) ''ptp''
     = Some (2, 1)
   \<and> ms_to_samples 1 (get_sampling_frequency example_recording) = Inr 1
   \<and> map_sum id global_times
       (fst (resolve_params initial_state example_recording 2 [''amplitude'', ''ptp'']
          [(''amplitude'', no_override\<lparr>set_ms_before := Some (Some 2)\<rparr>)] 1 1 True None))
     = Inr False"
  by (simp add: resolve_defs example_defs)

text \<open>
  C6: the mask is to have one row per channel. Line 111 allocates \<open>peaks.size\<close> rows: with
  fewer peaks than channels the loop over the channels raises \<open>IndexError\<close>, and with more
  the mask has rows beyond the channels.
\<close>

theorem sparsity_mask_has_a_row_per_peak:
  "build_sparsity_mask example_recording 1 5 = Inl IndexError
   \<and> build_sparsity_mask example_recording 3 5
       = Inr [[True, False], [False, True], [False, False]]
   \<and> fst (resolve_params initial_state example_recording 1 [''energy''] [] 1 1 True None)
       = Inl IndexError"
  by (simp add: resolve_defs example_defs)

text \<open>Whenever \<open>com\<close> is requested and the resolution does not raise, \<open>nb_com_dims\<close> is 2.\<close>

lemma resolve_feature_nb_com_dims:
  "resolve_feature rec n tbl f L h = (Inr L', h') \<Longrightarrow>
     cur_nb_com_dims L' = (if f = ''com'' then Some 2 else cur_nb_com_dims L)"
  by (auto simp: resolve_feature_def Let_def shape2_def split: option.splits sum.splits prod.splits)

lemma resolve_loop_nb_com_dims:
  "resolve_loop rec n tbl fl L h = (Inr L', h') \<Longrightarrow>
     cur_nb_com_dims L' = (if ''com'' \<in> set fl then Some 2 else cur_nb_com_dims L)"
proof (induction fl arbitrary: L h)
  case Nil
  then show ?case by simp
next
  case (Cons g rest)
  obtain r h1 where rf: "resolve_feature rec n tbl g L h = (r, h1)"
    by (cases "resolve_feature rec n tbl g L h")
  with Cons.prems obtain L1 where r: "r = Inr L1"
    and loop: "resolve_loop rec n tbl rest L1 h1 = (Inr L', h')"
    by (cases r) simp_all
  show ?case
    using Cons.IH[OF loop] resolve_feature_nb_com_dims[OF rf[unfolded r]] by auto
qed

lemma nb_com_dims_is_two:
  assumes "fst (resolve_params s rec n fl fp msb msa ofpp sm) = Inr mp" and "''com'' \<in> set fl"
  shows "nb_com_dims mp = Some 2"
proof -
  obtain r h where up: "update_params (select_table s) fp (heap s) = (r, h)"
    by (cases "update_params (select_table s) fp (heap s)")
  have r: "r = None" using assms(1) up by (cases r) (simp_all add: resolve_params_def Let_def)
  have cf: "check_features (map fst (select_table s)) False fl = None"
    using assms(1) up r
    by (cases "check_features (map fst (select_table s)) False fl") (simp_all add: resolve_params_def Let_def)
  let ?L0 = "\<lparr>cur_ms_before = msb, cur_ms_after = msa, nbefore_max = 0, nafter_max = 0,
            cur_global_times = True, cur_chan_locs = None, cur_nb_com_dims = None\<rparr>"
  obtain r2 h2 where rl: "resolve_loop rec n (select_table s) fl ?L0 h = (r2, h2)"
    by (cases "resolve_loop rec n (select_table s) fl ?L0 h")
  obtain L where r2: "r2 = Inr L"
    using assms(1) up r cf rl by (cases r2) (simp_all add: resolve_params_def Let_def)
  have "nb_com_dims mp = cur_nb_com_dims L"
    using assms(1) up r cf rl r2 by (auto simp: resolve_params_def Let_def)
  with resolve_loop_nb_com_dims[OF rl[unfolded r2]] assms(2) show ?thesis by simp
qed

text \<open>
  C7: \<open>nb_com_dims\<close> is to be the number of coordinate axes of the channel locations.
  Line 123 takes the length of the shape of the locations, which is 2 for every matrix:
  for channels with three coordinates \<open>nb_com_dims\<close> is 2.
\<close>

theorem nb_com_dims_of_3d_locations:
  "map_sum id nb_com_dims
     (fst (resolve_params initial_state example_recording_3d 2 [''com''] [] 1 1 True None))
     = Inr (Some 2)
   \<and> map length (get_channel_locations example_recording_3d) = [3, 3]"
  by (simp add: resolve_defs example_defs)

text \<open>
  C10: a run is to leave the module-level tables as they were. \<open>dict.copy()\<close> at line 68 is
  shallow, so line 73 writes the overrides into the table's own dictionaries: after a run
  with 2 ms before for \<open>amplitude\<close> the table holds that value, and a second run without
  overrides resolves two samples before where a first run resolves one.
\<close>

theorem overrides_persist_in_module_table:
  "ms_before (heap initial_state ! 0) = None
   \<and> ms_before (heap (snd (resolve_params initial_state example_recording 2 [''amplitude'']
        [(''amplitude'', no_override\<lparr>set_ms_before := Some (Some 2)\<rparr>)] 1 1 True None)) ! 0)
       = Some 2
   \<and> resolved_window
       (resolve_params
          (snd (resolve_params initial_state example_recording 2 [''amplitude'']
             [(''amplitude'', no_override\<lparr>set_ms_before := Some (Some 2)\<rparr>)] 1 1 True None))
          example_recording 2 [''amplitude''] [] 1 1 True None) ''amplitude''
       = Some (2, 1)
   \<and> resolved_window
       (resolve_params initial_state example_recording 2 [''amplitude''] [] 1 1 True None)
       ''amplitude''
       = Some (1, 1)"
  by (simp add: resolve_defs example_defs)

subsection \<open>Defects of the feature engine\<close>

text \<open>The per-channel branch for the sign \<open>both\<close> raises on every window that is not empty.\<close>

lemma per_channel_both_always_raises:
  "wf_shape1 wfs \<noteq> 0 \<Longrightarrow> amplitude_feature False (Some ''both'') wfs local_peak = Inl TypeError"
  by (simp add: amplitude_feature_def)


text \<open>
  C8: amplitude with sign \<open>both\<close> in per-channel mode is to return the maximum absolute
  value over time for each peak and channel. Line 279 passes \<open>axis=1\<close> to \<open>np.abs\<close>, where
  the branches for \<open>neg\<close> and \<open>pos\<close> pass it to \<open>np.min\<close> and \<open>np.max\<close>: the call raises
  \<open>TypeError\<close> for every window that is not empty. The same request with the sign \<open>neg\<close>
  of the table returns the minimum over time for each peak and channel.
\<close>

theorem per_channel_both_raises:
  "compute_features_with
     (resolve_params initial_state example_recording 2 [''amplitude'']
        [(''amplitude'', no_override\<lparr>set_peak_sign := Some ''both''\<rparr>)] 1 1 False None)
     example_traces example_local_peaks [''amplitude'']
     = Inl TypeError
   \<and> compute_features_with
       (resolve_params initial_state example_recording 2 [''amplitude''] [] 1 1 False None)
       example_traces example_local_peaks [''amplitude'']
     = Inr (PerChannel [[[1], [-2]], [[-5], [4]]])"
  by (simp add: resolve_defs example_defs engine_defs)

text \<open>
  With an empty window in scalar mode the tensor holds the stored amplitude of each peak.
\<close>

lemma those_map_Some: "those (map (\<lambda>x. Some (g x)) xs) = Some (map g xs)"
  by (induction xs) simp_all

lemma map2_replicate_update:
  "map2 (\<lambda>r x. r[0 := x]) (replicate (length xs) [0::real]) xs = map (\<lambda>x. [x]) xs"
  by (induction xs) simp_all

lemma empty_window_amplitude_scalar:
  assumes "one_feature_per_peak mp" "global_times mp" "top_nbefore mp = 0" "top_nafter mp = 0"
  shows "compute_features tr lp [''amplitude''] mp h = Inr (PerPeak (map (\<lambda>p. [amplitude p]) lp))"
proof -
  have win: "extract_waveforms tr lp 0 0
      = Inr \<lparr>wf_rows = map (\<lambda>p. []) lp, wf_shape1 = 0, wf_shape2 = num_cols tr\<rparr>"
    by (simp add: extract_waveforms_def arange_def those_map_Some)
  show ?thesis
    using assms win
    by (simp add: compute_features_def feature_window_def compute_feature_def
        amplitude_feature_def write_features_def broadcast_1d_def fit_row_def Let_def
        map2_replicate_update[of "map amplitude lp", simplified] comp_def)
qed

text \<open>
  C9: with an empty window the amplitude of each peak is to be the peak's stored
  amplitude. In per-channel mode line 343 assigns the amplitudes, one per peak, to a
  slab with a row per peak and a column per channel: numpy broadcasts them along the
  channels. With two peaks of amplitudes -5 and -7 on two channels, the first peak gets
  -7 on the second channel and the second peak -5 on the first. In scalar mode the same
  request returns the stored amplitudes.
\<close>

theorem empty_window_amplitude_per_channel:
  "compute_features_with
     (resolve_params initial_state example_recording 2 [''amplitude''] [] 0 0 False None)
     example_traces example_local_peaks [''amplitude'']
     = Inr (PerChannel [[[-5], [-7]], [[-5], [-7]]])
   \<and> map amplitude example_local_peaks = [-5, -7]
   \<and> compute_features_with
       (resolve_params initial_state example_recording 2 [''amplitude''] [] 0 0 True None)
       example_traces example_local_peaks [''amplitude'']
     = Inr (PerPeak [[-5], [-7]])"
  by (simp add: resolve_defs example_defs engine_defs)

text \<open>
  C1: one chunk and several chunks are to give the same tensor. With the empty window in
  per-channel mode the broadcast of line 343 depends on the number of peaks of the
  chunk: the segment of four frames as one chunk and as two chunks of two frames, one
  peak in each, gives two different tensors.
\<close>

theorem chunking_changes_the_tensor:
  "fst (compute_features_from_peaks initial_state example_recording example_peaks
          [''amplitude''] [] 0 0 False None [(0, 0, 4)])
     = Inr (PerChannel [[[-5], [-7]], [[-5], [-7]]])
   \<and> fst (compute_features_from_peaks initial_state example_recording example_peaks
          [''amplitude''] [] 0 0 False None [(0, 0, 2), (0, 2, 4)])
     = Inr (PerChannel [[[-5], [-5]], [[-7], [-7]]])"
  by (simp add: resolve_defs example_defs engine_defs)

end
